theory Spec2Isabelle
  imports Complex_Main "HOL-Library.AList"
begin

section \<open>Python values\<close>

text \<open>
  A Python \<open>float\<close>. Only what \<open>models.py\<close> and \<open>extract.py\<close> do with floats is needed:
  they store them, build \<open>float('nan')\<close> and compare with \<open>==\<close>. A finite double is a
  rational number, so \<open>Finite\<close> carries a rational; rounding is never exercised here.
\<close>

datatype pyfloat = NaN | PosInf | NegInf | Finite rat

text \<open>
  \<open>x == y\<close> on two floats: IEEE 754 comparison, where not-a-number is unequal to
  everything, itself included.
\<close>

fun float_eq :: "pyfloat \<Rightarrow> pyfloat \<Rightarrow> bool" where
  "float_eq NaN y = False"
| "float_eq x NaN = False"
| "float_eq x y = (x = y)"

text \<open>
  The Python objects that can reach the constructors and the loaders: the values a CSV
  \<open>DictReader\<close> row holds (\<open>str\<close>, or \<open>None\<close> for a short row), the values
  \<open>json.load\<close> returns, and the values \<open>serialize\<close> puts in its result. The
  discriminator \<open>is_str v\<close> is \<open>type(v) == str\<close>, and so on.
\<close>

datatype pyval =
    PNone
  | is_str: PStr string
  | is_float: PFloat pyfloat
  | is_bool: PBool bool
  | is_int: PInt int
  | is_list: PList "pyval list"
  | is_dict: PDict "(string \<times> pyval) list"

type_synonym pydict = "(string \<times> pyval) list"

datatype error =
    AssertionError
  | KeyError
  | IndexError
  | TypeError
  | ValueError
  | OverflowError

text \<open>Sequencing of two computations that may raise: the first exception wins.\<close>

fun bindE :: "error + 'a \<Rightarrow> ('a \<Rightarrow> error + 'b) \<Rightarrow> error + 'b" where
  "bindE (Inl e) f = Inl e"
| "bindE (Inr x) f = f x"

text \<open>\<open>d[k]\<close> on a \<open>dict\<close> with string keys.\<close>

definition getitem :: "pydict \<Rightarrow> string \<Rightarrow> error + pyval" where
  "getitem d k = (case map_of d k of None \<Rightarrow> Inl KeyError | Some v \<Rightarrow> Inr v)"

text \<open>\<open>v == s\<close> for a \<open>str\<close> literal \<open>s\<close>: only an equal \<open>str\<close> compares equal.\<close>

fun eq_str :: "pyval \<Rightarrow> string \<Rightarrow> bool" where
  "eq_str (PStr t) s = (t = s)"
| "eq_str v s = False"

text \<open>
  The built-in \<open>float(v)\<close>. Parsing a string and rounding an integer are Python's own and
  are taken as the parameters \<open>of_str\<close> (\<open>None\<close>: \<open>ValueError\<close>) and \<open>of_int\<close>
  (\<open>None\<close>: \<open>OverflowError\<close>); a float is returned as it is.
\<close>

record builtins =
  of_str :: "string \<Rightarrow> pyfloat option"
  of_int :: "int \<Rightarrow> pyfloat option"

fun py_float :: "builtins \<Rightarrow> pyval \<Rightarrow> error + pyfloat" where
  "py_float B (PStr s) = (case of_str B s of None \<Rightarrow> Inl ValueError | Some x \<Rightarrow> Inr x)"
| "py_float B (PFloat x) = Inr x"
| "py_float B (PInt i) = (case of_int B i of None \<Rightarrow> Inl OverflowError | Some x \<Rightarrow> Inr x)"
| "py_float B (PBool b) = Inr (Finite (if b then 1 else 0))"
| "py_float B v = Inl TypeError"

text \<open>\<open>v[i]\<close> for a literal index \<open>i \<ge> 0\<close>, and \<open>v[k]\<close> for a \<open>str\<close> literal \<open>k\<close>.\<close>

fun index :: "pyval \<Rightarrow> nat \<Rightarrow> error + pyval" where
  "index (PList xs) i = (if i < length xs then Inr (xs ! i) else Inl IndexError)"
| "index (PStr s) i = (if i < length s then Inr (PStr [s ! i]) else Inl IndexError)"
| "index (PDict d) i = Inl KeyError"
| "index v i = Inl TypeError"

fun subscript :: "pyval \<Rightarrow> string \<Rightarrow> error + pyval" where
  "subscript (PDict d) k = getitem d k"
| "subscript v k = Inl TypeError"

text \<open>The sequence \<open>for row in v\<close> walks through.\<close>

fun iter :: "pyval \<Rightarrow> error + pyval list" where
  "iter (PList xs) = Inr xs"
| "iter (PStr s) = Inr (map (\<lambda>c. PStr [c]) s)"
| "iter (PDict d) = Inr (map (\<lambda>kv. PStr (fst kv)) d)"
| "iter v = Inl TypeError"

section \<open>models.py\<close>

text \<open>
  Objects are referred to by identity; the two link fields hold references. Nothing in
  \<open>models.py\<close> or \<open>extract.py\<close> fills them: \<open>approaches\<close> starts empty and \<open>neo\<close>
  starts \<open>None\<close>.
\<close>

type_synonym ref = nat

record NearEarthObject =
  designation :: string
  name :: "string option"
  diameter :: pyfloat
  hazardous :: bool
  approaches :: "ref list"

text \<open>The default arguments of \<open>NearEarthObject.__init__\<close>.\<close>

definition default_name :: pyval where "default_name = PNone"
definition default_diameter :: pyval where "default_diameter = PFloat NaN"
definition default_hazardous :: pyval where "default_hazardous = PBool False"

text \<open>
  \<open>NearEarthObject.__init__\<close>: four assertions on the exact type of each argument, in
  the source's order, then the fields are stored and \<open>approaches\<close> is the empty list.
\<close>

definition NearEarthObject_init :: "pyval \<Rightarrow> pyval \<Rightarrow> pyval \<Rightarrow> pyval \<Rightarrow> error + NearEarthObject" where
  "NearEarthObject_init dsg nm dia hz =
     (case dsg of
        PStr d \<Rightarrow>
          (case (case nm of PStr n \<Rightarrow> Some (Some n) | PNone \<Rightarrow> Some None | _ \<Rightarrow> None) of
             Some n \<Rightarrow>
               (case dia of
                  PFloat x \<Rightarrow>
                    (case hz of
                       PBool h \<Rightarrow>
                         Inr \<lparr>designation = d, name = n, diameter = x, hazardous = h,
                              approaches = []\<rparr>
                     | _ \<Rightarrow> Inl AssertionError)
                | _ \<Rightarrow> Inl AssertionError)
           | None \<Rightarrow> Inl AssertionError)
      | _ \<Rightarrow> Inl AssertionError)"

text \<open>The property \<open>fullname\<close>.\<close>

definition fullname :: "NearEarthObject \<Rightarrow> string" where
  "fullname self =
     (case name self of
        Some n \<Rightarrow> designation self @ '' ('' @ n @ '')''
      | None \<Rightarrow> designation self)"

text \<open>
  \<open>NearEarthObject.serialize\<close>. The dictionary is an association list in insertion
  order; \<open>d[k] = v\<close> is \<open>AList.update\<close>.
\<close>

definition NearEarthObject_serialize :: "NearEarthObject \<Rightarrow> bool \<Rightarrow> pydict" where
  "NearEarthObject_serialize self csv_output =
     (let d = [(''designation'', PStr (designation self))];
          d = (case name self of
                 None \<Rightarrow> AList.update ''name'' (PStr '''') d
               | Some n \<Rightarrow> AList.update ''name'' (PStr n) d);
          d = (if float_eq (diameter self) NaN \<and> csv_output
               then AList.update ''diameter_km'' (PStr '''') d
               else AList.update ''diameter_km'' (PFloat (diameter self)) d);
          d = (if hazardous self = False \<and> csv_output
               then AList.update ''potentially_hazardous'' (PStr ''False'') d
               else if hazardous self = True \<and> csv_output
               then AList.update ''potentially_hazardous'' (PStr ''True'') d
               else AList.update ''potentially_hazardous'' (PBool (hazardous self)) d)
      in d)"

text \<open>
  A close approach. \<open>distance\<close>, \<open>velocity\<close> and the private \<open>_designation\<close> hold
  whatever object the caller passed. The type \<open>'t\<close> is the timestamp type of
  \<open>helpers.py\<close>.
\<close>

record 't CloseApproach =
  ca_designation :: pyval
  time :: 't
  distance :: pyval
  velocity :: pyval
  neo :: "ref option"

definition default_designation :: pyval where "default_designation = PStr ''''"

text \<open>
  \<open>CloseApproach.__init__\<close>. \<open>cd_to_datetime\<close> is defined in \<open>helpers.py\<close> and is a
  parameter here; it is the only call that can raise.
\<close>

definition CloseApproach_init ::
    "(pyval \<Rightarrow> error + 't) \<Rightarrow> pyval \<Rightarrow> pyval \<Rightarrow> pyval \<Rightarrow> pyval \<Rightarrow> error + 't CloseApproach" where
  "CloseApproach_init cd_to_datetime tm dst vel dsg =
     bindE (cd_to_datetime tm) (\<lambda>t.
       Inr \<lparr>ca_designation = dsg, time = t, distance = dst, velocity = vel, neo = None\<rparr>)"

text \<open>
  \<open>CloseApproach.serialize\<close>: one dictionary literal. \<open>datetime_to_str\<close> is defined in
  \<open>helpers.py\<close> and is a parameter here.
\<close>

definition CloseApproach_serialize :: "('t \<Rightarrow> string) \<Rightarrow> 't CloseApproach \<Rightarrow> pydict" where
  "CloseApproach_serialize datetime_to_str self =
     [(''datetime_utc'', PStr (datetime_to_str (time self))),
      (''distance_au'', distance self),
      (''velocity_km_s'', velocity self)]"

section \<open>extract.py\<close>

text \<open>
  The body of the loop of \<open>load_neos\<close> for one row of the \<open>DictReader\<close>: four
  look-ups, each of which raises \<open>KeyError\<close> when the column is missing, the two
  sentinels, the flag, and the constructor.
\<close>

definition neo_of_row :: "builtins \<Rightarrow> pydict \<Rightarrow> error + NearEarthObject" where
  "neo_of_row B row =
     bindE (getitem row ''pdes'') (\<lambda>dsg.
     bindE (getitem row ''name'') (\<lambda>row_name.
       let nm = (if eq_str row_name '''' then PNone else row_name) in
     bindE (getitem row ''diameter'') (\<lambda>row_diameter.
     bindE (if eq_str row_diameter '''' then Inr NaN else py_float B row_diameter) (\<lambda>dia.
     bindE (getitem row ''pha'') (\<lambda>row_pha.
       let hz = (if eq_str row_pha ''Y'' then True else False) in
       NearEarthObject_init dsg nm (PFloat dia) (PBool hz))))))"

text \<open>The loop of \<open>load_neos\<close> over the rows, appending to \<open>neo_lst\<close>.\<close>

fun load_neos_loop :: "builtins \<Rightarrow> pydict list \<Rightarrow> NearEarthObject list \<Rightarrow> error + NearEarthObject list" where
  "load_neos_loop B [] neo_lst = Inr neo_lst"
| "load_neos_loop B (row # rows) neo_lst =
     bindE (neo_of_row B row) (\<lambda>neo. load_neos_loop B rows (neo_lst @ [neo]))"

text \<open>
  \<open>load_neos\<close>, from the rows the \<open>DictReader\<close> yields (opening and tokenising the
  file are the \<open>csv\<close> module's).
\<close>

definition load_neos :: "builtins \<Rightarrow> pydict list \<Rightarrow> error + NearEarthObject list" where
  "load_neos B rows = load_neos_loop B rows []"

text \<open>The body of the loop of \<open>load_approaches\<close> for one element of \<open>reader['data']\<close>.\<close>

definition approach_of_row ::
    "builtins \<Rightarrow> (pyval \<Rightarrow> error + 't) \<Rightarrow> pyval \<Rightarrow> error + 't CloseApproach" where
  "approach_of_row B cd_to_datetime row =
     bindE (index row 3) (\<lambda>tm.
     bindE (bindE (index row 4) (py_float B)) (\<lambda>dst.
     bindE (bindE (index row 7) (py_float B)) (\<lambda>vel.
     bindE (index row 0) (\<lambda>dsg.
       CloseApproach_init cd_to_datetime tm (PFloat dst) (PFloat vel) dsg))))"

fun load_approaches_loop ::
    "builtins \<Rightarrow> (pyval \<Rightarrow> error + 't) \<Rightarrow> pyval list \<Rightarrow> 't CloseApproach list
      \<Rightarrow> error + 't CloseApproach list" where
  "load_approaches_loop B cd [] ca_lst = Inr ca_lst"
| "load_approaches_loop B cd (row # rows) ca_lst =
     bindE (approach_of_row B cd row) (\<lambda>ca. load_approaches_loop B cd rows (ca_lst @ [ca]))"

text \<open>
  \<open>load_approaches\<close>, from the object \<open>json.load\<close> returns.
\<close>

definition load_approaches ::
    "builtins \<Rightarrow> (pyval \<Rightarrow> error + 't) \<Rightarrow> pyval \<Rightarrow> error + 't CloseApproach list" where
  "load_approaches B cd reader =
     bindE (subscript reader ''data'') (\<lambda>data.
     bindE (iter data) (\<lambda>rows.
       load_approaches_loop B cd rows []))"

section \<open>A serialized object read back as a dataset-1 row\<close>

text \<open>
  Modelled from the spec: the step between \<open>NearEarthObject.serialize\<close> and
  \<open>load_neos\<close> is not in \<open>models.py\<close> or \<open>extract.py\<close>. The tabular fields
  \<open>designation\<close>, \<open>name\<close>, \<open>diameter_km\<close> and \<open>potentially_hazardous\<close> of the
  output contract are the columns \<open>pdes\<close>, \<open>name\<close>, \<open>diameter\<close> and \<open>pha\<close> of
  dataset 1; the values are left as \<open>serialize\<close> produced them.
\<close>

definition dataset1_column :: "string \<Rightarrow> string" where
  "dataset1_column k =
     (if k = ''designation'' then ''pdes''
      else if k = ''diameter_km'' then ''diameter''
      else if k = ''potentially_hazardous'' then ''pha''
      else k)"

definition dataset1_row :: "pydict \<Rightarrow> pydict" where
  "dataset1_row d = map (\<lambda>kv. (dataset1_column (fst kv), snd kv)) d"

text \<open>
  A tabular row that went through a CSV file holds text only: the \<open>csv\<close> module
  writes \<open>None\<close> as the empty field, a string as it is and any other object as
  \<open>str\<close> prints it. \<open>str\<close> on such an object is Python's own and is the parameter
  \<open>py_str\<close>.
\<close>

definition csv_cell :: "(pyval \<Rightarrow> string) \<Rightarrow> pyval \<Rightarrow> pyval" where
  "csv_cell py_str v =
     (case v of PNone \<Rightarrow> PStr '''' | PStr s \<Rightarrow> PStr s | _ \<Rightarrow> PStr (py_str v))"

definition csv_text_row :: "(pyval \<Rightarrow> string) \<Rightarrow> pydict \<Rightarrow> pydict" where
  "csv_text_row py_str d = map (\<lambda>kv. (fst kv, csv_cell py_str (snd kv))) d"

section \<open>Serialization\<close>

lemma float_eq_NaN: "float_eq x NaN = False"
  by (cases x) simp_all

text \<open>
  The comparison with \<open>float('nan')\<close> is never true, so the branch of
  \<open>NearEarthObject.serialize\<close> that writes the empty string is dead: in both modes the
  field \<open>diameter_km\<close> holds the float itself.
\<close>

lemma serialize_diameter_km:
  "map_of (NearEarthObject_serialize self csv_output) ''diameter_km'' =
     Some (PFloat (diameter self))"
  by (simp add: NearEarthObject_serialize_def float_eq_NaN Let_def split: option.split)

lemma serialize_keys:
  "map fst (NearEarthObject_serialize self csv_output) =
     [''designation'', ''name'', ''diameter_km'', ''potentially_hazardous'']"
  by (simp add: NearEarthObject_serialize_def float_eq_NaN Let_def split: option.split)

text \<open>
  Claim C1. For an object whose diameter is not-a-number, the tabular serialization is to
  render \<open>diameter_km\<close> as the empty string. The code does not: at the object
  \<open>2020 AB\<close> with no name and an unknown diameter, \<open>serialize(csv_output=True)\<close>
  returns the float not-a-number under \<open>diameter_km\<close>.
\<close>

theorem C1_serialize_nan_tabular:
  "map_of (NearEarthObject_serialize
      \<lparr>designation = ''2020 AB'', name = None, diameter = NaN, hazardous = False,
       approaches = []\<rparr> True) ''diameter_km'' = Some (PFloat NaN)"
  by (simp add: NearEarthObject_serialize_def)

text \<open>
  Claim C2, as stated, fails: the dictionary \<open>CloseApproach.serialize\<close> returns for a
  linked approach does not have the four keys \<open>datetime_utc\<close>, \<open>distance_au\<close>,
  \<open>velocity_km_s\<close> and \<open>neo\<close>.
\<close>

theorem C2_serialize_has_no_neo:
  "fst ` set (CloseApproach_serialize id
      \<lparr>ca_designation = PStr ''433'', time = ''1900-01-01 12:00'',
       distance = PFloat (Finite (3 / 20)), velocity = PFloat (Finite (26 / 5)),
       neo = Some 0\<rparr>)
   \<noteq> {''datetime_utc'', ''distance_au'', ''velocity_km_s'', ''neo''}"
proof
  assume "fst ` set (CloseApproach_serialize id
      \<lparr>ca_designation = PStr ''433'', time = ''1900-01-01 12:00'',
       distance = PFloat (Finite (3 / 20)), velocity = PFloat (Finite (26 / 5)),
       neo = Some 0\<rparr>)
   = {''datetime_utc'', ''distance_au'', ''velocity_km_s'', ''neo''}"
  then have "''neo'' \<in> fst ` set (CloseApproach_serialize id
      \<lparr>ca_designation = PStr ''433'', time = ''1900-01-01 12:00'',
       distance = PFloat (Finite (3 / 20)), velocity = PFloat (Finite (26 / 5)),
       neo = Some 0\<rparr>)"
    by blast
  then show False
    by (simp add: CloseApproach_serialize_def)
qed

text \<open>
  Claim C2, amended. \<open>CloseApproach.serialize\<close> returns a dictionary with exactly the
  keys \<open>datetime_utc\<close>, \<open>distance_au\<close> and \<open>velocity_km_s\<close>, in this order, holding
  the formatted time, the distance and the velocity; it has no key \<open>neo\<close>.
\<close>

theorem C2_serialize_three_keys:
  "map fst (CloseApproach_serialize datetime_to_str self) =
     [''datetime_utc'', ''distance_au'', ''velocity_km_s'']
   \<and> map_of (CloseApproach_serialize datetime_to_str self) ''datetime_utc'' =
       Some (PStr (datetime_to_str (time self)))
   \<and> map_of (CloseApproach_serialize datetime_to_str self) ''distance_au'' =
       Some (distance self)
   \<and> map_of (CloseApproach_serialize datetime_to_str self) ''velocity_km_s'' =
       Some (velocity self)
   \<and> map_of (CloseApproach_serialize datetime_to_str self) ''neo'' = None"
  by (simp add: CloseApproach_serialize_def)

text \<open>
  Claim C3. The object built with name \<open>Ganymed\<close>, diameter 38.5 and hazardous
  \<open>False\<close> (any designation) is constructed. Its tabular serialization, written to a
  CSV file, is a row of four text cells, the diameter cell being what \<open>str\<close> prints for
  38.5. Read back under the rules of dataset 1, this text row gives an object with the
  same name, diameter and flag (the same object, in fact), whenever \<open>str\<close> prints 38.5
  as a non-empty text \<open>s\<close> and \<open>float\<close> reads \<open>s\<close> back as 38.5 (in Python
  \<open>s\<close> is \<open>38.5\<close>).
\<close>

theorem C3_roundtrip_Ganymed:
  assumes "py_str (PFloat (Finite (77 / 2))) = s" and "s \<noteq> []"
    and "of_str B s = Some (Finite (77 / 2))"
  shows "NearEarthObject_init (PStr d) (PStr ''Ganymed'') (PFloat (Finite (77 / 2)))
        (PBool False) =
      Inr \<lparr>designation = d, name = Some ''Ganymed'', diameter = Finite (77 / 2),
           hazardous = False, approaches = []\<rparr>
    \<and> csv_text_row py_str (NearEarthObject_serialize
        \<lparr>designation = d, name = Some ''Ganymed'', diameter = Finite (77 / 2),
         hazardous = False, approaches = []\<rparr> True) =
      [(''designation'', PStr d), (''name'', PStr ''Ganymed''), (''diameter_km'', PStr s),
       (''potentially_hazardous'', PStr ''False'')]
    \<and> neo_of_row B (dataset1_row (csv_text_row py_str (NearEarthObject_serialize
        \<lparr>designation = d, name = Some ''Ganymed'', diameter = Finite (77 / 2),
         hazardous = False, approaches = []\<rparr> True))) =
      Inr \<lparr>designation = d, name = Some ''Ganymed'', diameter = Finite (77 / 2),
           hazardous = False, approaches = []\<rparr>"
proof -
  have c: "NearEarthObject_init (PStr d) (PStr ''Ganymed'') (PFloat (Finite (77 / 2)))
        (PBool False) =
      Inr \<lparr>designation = d, name = Some ''Ganymed'', diameter = Finite (77 / 2),
           hazardous = False, approaches = []\<rparr>"
    by (simp add: NearEarthObject_init_def)
  have t: "csv_text_row py_str (NearEarthObject_serialize
        \<lparr>designation = d, name = Some ''Ganymed'', diameter = Finite (77 / 2),
         hazardous = False, approaches = []\<rparr> True) =
      [(''designation'', PStr d), (''name'', PStr ''Ganymed''), (''diameter_km'', PStr s),
       (''potentially_hazardous'', PStr ''False'')]"
    using assms(1) by (simp add: csv_text_row_def csv_cell_def NearEarthObject_serialize_def)
  have "neo_of_row B (dataset1_row
      [(''designation'', PStr d), (''name'', PStr ''Ganymed''), (''diameter_km'', PStr s),
       (''potentially_hazardous'', PStr ''False'')]) =
      Inr \<lparr>designation = d, name = Some ''Ganymed'', diameter = Finite (77 / 2),
           hazardous = False, approaches = []\<rparr>"
    using assms(2,3)
    by (simp add: neo_of_row_def dataset1_row_def dataset1_column_def getitem_def
        NearEarthObject_init_def)
  with c t show ?thesis
    by simp
qed

text \<open>
  The round trip at the designation \<open>1036\<close>, with \<open>str\<close> printing 38.5 as
  \<open>38.5\<close> and \<open>float\<close> reading only that text: the row that is read back holds the
  four texts \<open>1036\<close>, \<open>Ganymed\<close>, \<open>38.5\<close> and \<open>False\<close>.
\<close>

theorem C3_roundtrip_Ganymed_witness:
  "csv_text_row (\<lambda>v. if v = PFloat (Finite (77 / 2)) then ''38.5'' else ''?'')
      (NearEarthObject_serialize
        \<lparr>designation = ''1036'', name = Some ''Ganymed'', diameter = Finite (77 / 2),
         hazardous = False, approaches = []\<rparr> True) =
      [(''designation'', PStr ''1036''), (''name'', PStr ''Ganymed''),
       (''diameter_km'', PStr ''38.5''), (''potentially_hazardous'', PStr ''False'')]
   \<and> neo_of_row \<lparr>of_str = map_of [(''38.5'', Finite (77 / 2))], of_int = Map.empty\<rparr>
      (dataset1_row (csv_text_row (\<lambda>v. if v = PFloat (Finite (77 / 2)) then ''38.5'' else ''?'')
        (NearEarthObject_serialize
          \<lparr>designation = ''1036'', name = Some ''Ganymed'', diameter = Finite (77 / 2),
           hazardous = False, approaches = []\<rparr> True))) =
      Inr \<lparr>designation = ''1036'', name = Some ''Ganymed'', diameter = Finite (77 / 2),
           hazardous = False, approaches = []\<rparr>"
proof -
  let ?py_str = "\<lambda>v. if v = PFloat (Finite (77 / 2)) then ''38.5'' else ''?''"
  let ?B = "\<lparr>of_str = map_of [(''38.5'', Finite (77 / 2))], of_int = Map.empty\<rparr>"
  have p: "?py_str (PFloat (Finite (77 / 2))) = ''38.5''"
    by simp
  have n: "''38.5'' \<noteq> []"
    by simp
  have f: "of_str ?B ''38.5'' = Some (Finite (77 / 2))"
    by simp
  from C3_roundtrip_Ganymed [of ?py_str "''38.5''" ?B "''1036''", OF p n f] show ?thesis
    by blast
qed

text \<open>
  The round trip depends on the parse of the diameter text: when \<open>float\<close> rejects
  it, the loop body raises \<open>ValueError\<close> on the same row and returns no object.
\<close>

lemma roundtrip_needs_float:
  "of_str B ''38.5'' = None \<Longrightarrow>
   neo_of_row B (dataset1_row
      [(''designation'', PStr d), (''name'', PStr ''Ganymed''),
       (''diameter_km'', PStr ''38.5''), (''potentially_hazardous'', PStr ''False'')]) =
     Inl ValueError"
  by (simp add: neo_of_row_def dataset1_row_def dataset1_column_def getitem_def)

section \<open>Construction of a near-Earth object\<close>

text \<open>What a successful construction says about the arguments.\<close>

lemma NearEarthObject_init_Inr:
  assumes "NearEarthObject_init dsg nm dia hz = Inr obj"
  shows "dsg = PStr (designation obj)"
    and "nm = (case name obj of None \<Rightarrow> PNone | Some n \<Rightarrow> PStr n)"
    and "dia = PFloat (diameter obj)"
    and "hz = PBool (hazardous obj)"
    and "approaches obj = []"
proof -
  from assms obtain d where d: "dsg = PStr d"
    by (cases dsg) (simp_all add: NearEarthObject_init_def)
  from assms d obtain x where x: "dia = PFloat x"
    by (cases dia; cases nm) (simp_all add: NearEarthObject_init_def)
  from assms d x obtain h where h: "hz = PBool h"
    by (cases hz; cases nm) (simp_all add: NearEarthObject_init_def)
  from assms d x h
  show "dsg = PStr (designation obj)"
    and "nm = (case name obj of None \<Rightarrow> PNone | Some n \<Rightarrow> PStr n)"
    and "dia = PFloat (diameter obj)"
    and "hz = PBool (hazardous obj)"
    and "approaches obj = []"
    by (cases nm; auto simp add: NearEarthObject_init_def)+
qed



text \<open>
  Claim C5, as stated, fails: the constructor accepts the empty string as designation.
\<close>

theorem C5_empty_designation_accepted:
  "\<not> (\<forall>dsg nm dia hz obj.
        NearEarthObject_init dsg nm dia hz = Inr obj \<longrightarrow> designation obj \<noteq> [])"
proof
  assume a: "\<forall>dsg nm dia hz obj.
        NearEarthObject_init dsg nm dia hz = Inr obj \<longrightarrow> designation obj \<noteq> []"
  have "NearEarthObject_init (PStr []) PNone (PFloat NaN) (PBool False) =
      Inr \<lparr>designation = [], name = None, diameter = NaN, hazardous = False, approaches = []\<rparr>"
    by (simp add: NearEarthObject_init_def)
  with a have "designation \<lparr>designation = [], name = None, diameter = NaN, hazardous = False,
      approaches = []\<rparr> \<noteq> []"
    by blast
  then show False by simp
qed

text \<open>
  Claim C5, amended. Every successfully constructed object has as designation the string
  that was passed to the constructor, whatever its length.
\<close>

theorem C5_designation_is_argument:
  "NearEarthObject_init dsg nm dia hz = Inr obj \<Longrightarrow> dsg = PStr (designation obj)"
  by (rule NearEarthObject_init_Inr(1))

theorem C5_designation_is_argument_witness:
  "PStr ''433'' = PStr (designation
     \<lparr>designation = ''433'', name = Some ''Eros'', diameter = Finite (421 / 25),
      hazardous = False, approaches = []\<rparr>)"
  using C5_designation_is_argument [of "PStr ''433''" "PStr ''Eros''"
      "PFloat (Finite (421 / 25))" "PBool False"
      "\<lparr>designation = ''433'', name = Some ''Eros'', diameter = Finite (421 / 25),
        hazardous = False, approaches = []\<rparr>"]
  by (simp add: NearEarthObject_init_def)

section \<open>The loops of the loaders\<close>

lemma bindE_Inr: "(bindE m f = Inr y) = (\<exists>x. m = Inr x \<and> f x = Inr y)"
  by (cases m) simp_all

lemma map_Inr_nth:
  "(map f rows = map Inr out) =
     (length out = length rows \<and> (\<forall>i<length rows. f (rows ! i) = Inr (out ! i)))"
  by (auto simp add: list_eq_iff_nth_eq)

lemma load_neos_loop_Inr:
  "(load_neos_loop B rows neo_lst = Inr out) =
     (\<exists>news. out = neo_lst @ news \<and> map (neo_of_row B) rows = map Inr news)"
proof (induction rows arbitrary: neo_lst)
  case Nil
  then show ?case by auto
next
  case (Cons row rows)
  show ?case
  proof
    assume "load_neos_loop B (row # rows) neo_lst = Inr out"
    then obtain x where x: "neo_of_row B row = Inr x"
      and "load_neos_loop B rows (neo_lst @ [x]) = Inr out"
      by (auto simp add: bindE_Inr)
    then obtain news where "out = (neo_lst @ [x]) @ news"
      and "map (neo_of_row B) rows = map Inr news"
      using Cons.IH by blast
    with x have "out = neo_lst @ (x # news) \<and>
        map (neo_of_row B) (row # rows) = map Inr (x # news)"
      by simp
    then show "\<exists>news. out = neo_lst @ news \<and>
        map (neo_of_row B) (row # rows) = map Inr news"
      by blast
  next
    assume "\<exists>news. out = neo_lst @ news \<and>
        map (neo_of_row B) (row # rows) = map Inr news"
    then obtain news where o: "out = neo_lst @ news"
      and m: "map (neo_of_row B) (row # rows) = map Inr news"
      by blast
    from m obtain x news' where n: "news = x # news'" and x: "neo_of_row B row = Inr x"
      and m': "map (neo_of_row B) rows = map Inr news'"
      by (cases news) auto
    have "load_neos_loop B rows (neo_lst @ [x]) = Inr out"
      using Cons.IH [of "neo_lst @ [x]"] o n m' by simp
    with x show "load_neos_loop B (row # rows) neo_lst = Inr out"
      by simp
  qed
qed

lemma load_neos_Inr:
  "(load_neos B rows = Inr neos) =
     (length neos = length rows \<and> (\<forall>i<length rows. neo_of_row B (rows ! i) = Inr (neos ! i)))"
  by (simp add: load_neos_def load_neos_loop_Inr map_Inr_nth)

lemma load_approaches_loop_Inr:
  "(load_approaches_loop B cd rows ca_lst = Inr out) =
     (\<exists>news. out = ca_lst @ news \<and> map (approach_of_row B cd) rows = map Inr news)"
proof (induction rows arbitrary: ca_lst)
  case Nil
  then show ?case by auto
next
  case (Cons row rows)
  show ?case
  proof
    assume "load_approaches_loop B cd (row # rows) ca_lst = Inr out"
    then obtain x where x: "approach_of_row B cd row = Inr x"
      and "load_approaches_loop B cd rows (ca_lst @ [x]) = Inr out"
      by (auto simp add: bindE_Inr)
    then obtain news where "out = (ca_lst @ [x]) @ news"
      and "map (approach_of_row B cd) rows = map Inr news"
      using Cons.IH by blast
    with x have "out = ca_lst @ (x # news) \<and>
        map (approach_of_row B cd) (row # rows) = map Inr (x # news)"
      by simp
    then show "\<exists>news. out = ca_lst @ news \<and>
        map (approach_of_row B cd) (row # rows) = map Inr news"
      by blast
  next
    assume "\<exists>news. out = ca_lst @ news \<and>
        map (approach_of_row B cd) (row # rows) = map Inr news"
    then obtain news where o: "out = ca_lst @ news"
      and m: "map (approach_of_row B cd) (row # rows) = map Inr news"
      by blast
    from m obtain x news' where n: "news = x # news'" and x: "approach_of_row B cd row = Inr x"
      and m': "map (approach_of_row B cd) rows = map Inr news'"
      by (cases news) auto
    have "load_approaches_loop B cd rows (ca_lst @ [x]) = Inr out"
      using Cons.IH [of "ca_lst @ [x]"] o n m' by simp
    with x show "load_approaches_loop B cd (row # rows) ca_lst = Inr out"
      by simp
  qed
qed

lemma load_approaches_Inr:
  "subscript reader ''data'' = Inr (PList data) \<Longrightarrow>
   (load_approaches B cd reader = Inr cas) =
     (length cas = length data \<and>
      (\<forall>i<length data. approach_of_row B cd (data ! i) = Inr (cas ! i)))"
  by (simp add: load_approaches_def load_approaches_loop_Inr map_Inr_nth)

lemma neo_of_row_Inr:
  assumes "neo_of_row B row = Inr obj"
  shows "\<exists>dsg row_name row_diameter dia row_pha.
      map_of row ''pdes'' = Some dsg \<and> map_of row ''name'' = Some row_name
      \<and> map_of row ''diameter'' = Some row_diameter
      \<and> (if eq_str row_diameter [] then Inr NaN else py_float B row_diameter) = Inr dia
      \<and> map_of row ''pha'' = Some row_pha
      \<and> NearEarthObject_init dsg (if eq_str row_name [] then PNone else row_name)
          (PFloat dia) (PBool (if eq_str row_pha ''Y'' then True else False)) = Inr obj"
  using assms
  by (auto simp add: neo_of_row_def getitem_def Let_def bindE_Inr
      split: option.splits split del: if_split)

lemma neo_of_row_name:
  assumes "neo_of_row B row = Inr obj" and "map_of row ''name'' = Some (PStr s)"
  shows "name obj = (if s = [] then None else Some s)"
proof -
  from neo_of_row_Inr [OF assms(1)] assms(2) obtain dsg dia hz
    where i: "NearEarthObject_init dsg (if eq_str (PStr s) [] then PNone else PStr s) dia hz
      = Inr obj"
    by fastforce
  show ?thesis
  proof (cases "s = []")
    case True
    with i have "NearEarthObject_init dsg PNone dia hz = Inr obj"
      by simp
    from NearEarthObject_init_Inr(2) [OF this] True show ?thesis
      by (cases "name obj") simp_all
  next
    case False
    with i have "NearEarthObject_init dsg (PStr s) dia hz = Inr obj"
      by simp
    from NearEarthObject_init_Inr(2) [OF this] False show ?thesis
      by (cases "name obj") simp_all
  qed
qed

lemma neo_of_row_diameter:
  assumes "neo_of_row B row = Inr obj" and "map_of row ''diameter'' = Some (PStr s)"
  shows "if s = [] then diameter obj = NaN else py_float B (PStr s) = Inr (diameter obj)"
proof -
  from neo_of_row_Inr [OF assms(1)] assms(2) obtain dsg nm dia hz
    where d: "(if eq_str (PStr s) [] then Inr NaN else py_float B (PStr s)) = Inr dia"
      and i: "NearEarthObject_init dsg nm (PFloat dia) hz = Inr obj"
    by fastforce
  from NearEarthObject_init_Inr(3) [OF i] have e: "diameter obj = dia"
    by simp
  show ?thesis
  proof (cases "s = []")
    case True
    with d have "dia = NaN" by simp
    with e True show ?thesis by simp
  next
    case False
    with d have "py_float B (PStr s) = Inr dia" by simp
    with e False show ?thesis by simp
  qed
qed

lemma neo_of_row_hazardous:
  assumes "neo_of_row B row = Inr obj"
  shows "hazardous obj = (map_of row ''pha'' = Some (PStr ''Y''))"
proof -
  from neo_of_row_Inr [OF assms] obtain dsg nm dia row_pha
    where p: "map_of row ''pha'' = Some row_pha"
      and i: "NearEarthObject_init dsg nm dia (PBool (if eq_str row_pha ''Y'' then True else False))
          = Inr obj"
    by blast
  from NearEarthObject_init_Inr(4) [OF i] have "hazardous obj = eq_str row_pha ''Y''"
    by (cases "eq_str row_pha ''Y''") simp_all
  with p show ?thesis
    by (cases row_pha) simp_all
qed

text \<open>
  A row of the \<open>DictReader\<close> whose four columns are present holds four strings. On
  such a row the loop body returns an object unless \<open>float\<close> rejects a non-empty
  diameter, and the object is the following.
\<close>

lemma neo_of_row_strings:
  assumes "map_of row ''pdes'' = Some (PStr d)" and "map_of row ''name'' = Some (PStr n)"
    and "map_of row ''diameter'' = Some (PStr s)" and "map_of row ''pha'' = Some (PStr p)"
  shows "neo_of_row B row =
     (if s = [] then
        Inr \<lparr>designation = d, name = (if n = [] then None else Some n), diameter = NaN,
             hazardous = (p = ''Y''), approaches = []\<rparr>
      else case of_str B s of
          None \<Rightarrow> Inl ValueError
        | Some x \<Rightarrow>
            Inr \<lparr>designation = d, name = (if n = [] then None else Some n), diameter = x,
                 hazardous = (p = ''Y''), approaches = []\<rparr>)"
  using assms
  by (simp add: neo_of_row_def getitem_def NearEarthObject_init_def split: option.split)

section \<open>Loading\<close>

text \<open>
  Claim C6. In the result of \<open>load_neos\<close>, the object of row \<open>i\<close> has no name when
  the row's \<open>name\<close> column is the empty string and the column's string as name
  otherwise; its diameter is not-a-number (and not zero) when the \<open>diameter\<close> column is
  the empty string, and \<open>float\<close> of the column's string otherwise.
\<close>

theorem C6_load_neos_sentinels:
  assumes "load_neos B rows = Inr neos" and "i < length rows"
  shows "(map_of (rows ! i) ''name'' = Some (PStr []) \<longrightarrow> name (neos ! i) = None)
    \<and> (\<forall>s. s \<noteq> [] \<and> map_of (rows ! i) ''name'' = Some (PStr s) \<longrightarrow>
          name (neos ! i) = Some s)
    \<and> (map_of (rows ! i) ''diameter'' = Some (PStr []) \<longrightarrow>
          diameter (neos ! i) = NaN \<and> diameter (neos ! i) \<noteq> Finite 0)
    \<and> (\<forall>s. s \<noteq> [] \<and> map_of (rows ! i) ''diameter'' = Some (PStr s) \<longrightarrow>
          py_float B (PStr s) = Inr (diameter (neos ! i)))"
proof -
  from assms have r: "neo_of_row B (rows ! i) = Inr (neos ! i)"
    by (simp add: load_neos_Inr)
  show ?thesis
    using neo_of_row_name [OF r] neo_of_row_diameter [OF r]
    by (simp del: py_float.simps)
qed

theorem C6_load_neos_sentinels_witness:
  "\<exists>neos. load_neos \<lparr>of_str = map_of [(''16.84'', Finite (421 / 25))], of_int = Map.empty\<rparr>
      [[(''pdes'', PStr ''433''), (''name'', PStr ''Eros''), (''diameter'', PStr ''16.84''),
        (''pha'', PStr ''N'')],
       [(''pdes'', PStr ''2020 AB''), (''name'', PStr []), (''diameter'', PStr []),
        (''pha'', PStr ''Y'')]] = Inr neos
     \<and> name (neos ! 0) = Some ''Eros'' \<and> diameter (neos ! 0) = Finite (421 / 25)
     \<and> name (neos ! 1) = None \<and> diameter (neos ! 1) = NaN"
proof -
  let ?B = "\<lparr>of_str = map_of [(''16.84'', Finite (421 / 25))], of_int = Map.empty\<rparr>"
  let ?rows = "[[(''pdes'', PStr ''433''), (''name'', PStr ''Eros''),
        (''diameter'', PStr ''16.84''), (''pha'', PStr ''N'')],
       [(''pdes'', PStr ''2020 AB''), (''name'', PStr []), (''diameter'', PStr []),
        (''pha'', PStr ''Y'')]]"
  let ?neos = "[\<lparr>designation = ''433'', name = Some ''Eros'', diameter = Finite (421 / 25),
        hazardous = False, approaches = []\<rparr>,
      \<lparr>designation = ''2020 AB'', name = None, diameter = NaN, hazardous = True,
        approaches = []\<rparr>]"
  have L: "load_neos ?B ?rows = Inr ?neos"
    by (simp add: load_neos_def neo_of_row_def getitem_def NearEarthObject_init_def)
  have "name (?neos ! 0) = Some ''Eros'' \<and>
      py_float ?B (PStr ''16.84'') = Inr (diameter (?neos ! 0))"
    using C6_load_neos_sentinels [OF L, of 0] by simp
  moreover have "name (?neos ! 1) = None \<and> diameter (?neos ! 1) = NaN"
    using C6_load_neos_sentinels [OF L, of 1] by simp
  ultimately show ?thesis
    using L by simp
qed

text \<open>
  Claim C7. In the result of \<open>load_neos\<close>, the object of row \<open>i\<close> is hazardous exactly
  when the row's \<open>pha\<close> column is the string \<open>Y\<close>.
\<close>

theorem C7_hazardous_iff_Y:
  assumes "load_neos B rows = Inr neos" and "i < length rows"
  shows "hazardous (neos ! i) = (map_of (rows ! i) ''pha'' = Some (PStr ''Y''))"
proof -
  from assms have "neo_of_row B (rows ! i) = Inr (neos ! i)"
    by (simp add: load_neos_Inr)
  then show ?thesis
    by (rule neo_of_row_hazardous)
qed

theorem C7_hazardous_iff_Y_witness:
  "\<exists>neos. load_neos \<lparr>of_str = Map.empty, of_int = Map.empty\<rparr>
      [[(''pdes'', PStr ''a''), (''name'', PStr []), (''diameter'', PStr []),
        (''pha'', PStr ''Y'')],
       [(''pdes'', PStr ''b''), (''name'', PStr []), (''diameter'', PStr []),
        (''pha'', PStr ''y'')],
       [(''pdes'', PStr ''c''), (''name'', PStr []), (''diameter'', PStr []),
        (''pha'', PStr [])]] = Inr neos
     \<and> hazardous (neos ! 0) = True \<and> hazardous (neos ! 1) = False
     \<and> hazardous (neos ! 2) = False"
proof -
  let ?B = "\<lparr>of_str = Map.empty, of_int = Map.empty\<rparr>"
  let ?rows = "[[(''pdes'', PStr ''a''), (''name'', PStr []), (''diameter'', PStr []),
        (''pha'', PStr ''Y'')],
       [(''pdes'', PStr ''b''), (''name'', PStr []), (''diameter'', PStr []),
        (''pha'', PStr ''y'')],
       [(''pdes'', PStr ''c''), (''name'', PStr []), (''diameter'', PStr []),
        (''pha'', PStr [])]]"
  let ?neos = "[\<lparr>designation = ''a'', name = None, diameter = NaN, hazardous = True,
        approaches = []\<rparr>,
      \<lparr>designation = ''b'', name = None, diameter = NaN, hazardous = False,
        approaches = []\<rparr>,
      \<lparr>designation = ''c'', name = None, diameter = NaN, hazardous = False,
        approaches = []\<rparr>]"
  have L: "load_neos ?B ?rows = Inr ?neos"
    by (simp add: load_neos_def neo_of_row_def getitem_def NearEarthObject_init_def)
  have "hazardous (?neos ! 0) = True"
    using C7_hazardous_iff_Y [OF L, of 0] by simp
  moreover have "hazardous (?neos ! 1) = False"
    using C7_hazardous_iff_Y [OF L, of 1] by simp
  moreover have "hazardous (?neos ! 2) = False"
    using C7_hazardous_iff_Y [OF L, of 2] by simp
  ultimately show ?thesis
    using L by simp
qed

text \<open>
  Claim C10. \<open>load_neos\<close> returns a list exactly when every row's object can be built,
  and then the list has one object per row, the \<open>i\<close>-th built from the \<open>i\<close>-th row;
  the same holds for \<open>load_approaches\<close> and the elements of the array under \<open>data\<close>.
\<close>

theorem C10_one_entity_per_record:
  "(load_neos B rows = Inr neos) =
     (length neos = length rows \<and>
      (\<forall>i<length rows. neo_of_row B (rows ! i) = Inr (neos ! i)))
   \<and> (subscript reader ''data'' = Inr (PList rows') \<longrightarrow>
       (load_approaches B' cd_to_datetime reader = Inr cas) =
         (length cas = length rows' \<and>
          (\<forall>i<length rows'.
              approach_of_row B' cd_to_datetime (rows' ! i) = Inr (cas ! i))))"
  by (simp add: load_neos_Inr load_approaches_Inr)

theorem C10_one_entity_per_record_witness:
  "(\<exists>neos. load_neos \<lparr>of_str = map_of [(''16.84'', Finite (421 / 25))], of_int = Map.empty\<rparr>
      [[(''pdes'', PStr ''433''), (''name'', PStr ''Eros''), (''diameter'', PStr ''16.84''),
        (''pha'', PStr ''N'')],
       [(''pdes'', PStr ''2020 AB''), (''name'', PStr []), (''diameter'', PStr []),
        (''pha'', PStr ''Y'')]] = Inr neos
     \<and> length neos = 2 \<and> designation (neos ! 0) = ''433''
     \<and> designation (neos ! 1) = ''2020 AB'')
   \<and> (\<exists>cas. load_approaches
        \<lparr>of_str = map_of [(''0.15'', Finite (3 / 20)), (''5.2'', Finite (26 / 5))],
         of_int = Map.empty\<rparr>
        (\<lambda>v. if is_str v then Inr v else Inl TypeError)
        (PDict [(''signature'', PDict []), (''count'', PStr ''1''),
          (''data'', PList [PList [PStr ''433'', PStr ''594'', PStr ''2415020.5'',
             PStr ''1900-Jan-01 12:00'', PStr ''0.15'', PStr ''0.14'', PStr ''0.16'',
             PStr ''5.2'', PStr ''5.1'']])]) = Inr cas
     \<and> length cas = 1 \<and> ca_designation (cas ! 0) = PStr ''433''
     \<and> distance (cas ! 0) = PFloat (Finite (3 / 20)))"
proof -
  let ?B = "\<lparr>of_str = map_of [(''16.84'', Finite (421 / 25))], of_int = Map.empty\<rparr>"
  let ?rows = "[[(''pdes'', PStr ''433''), (''name'', PStr ''Eros''),
        (''diameter'', PStr ''16.84''), (''pha'', PStr ''N'')],
       [(''pdes'', PStr ''2020 AB''), (''name'', PStr []), (''diameter'', PStr []),
        (''pha'', PStr ''Y'')]]"
  let ?neos = "[\<lparr>designation = ''433'', name = Some ''Eros'', diameter = Finite (421 / 25),
        hazardous = False, approaches = []\<rparr>,
      \<lparr>designation = ''2020 AB'', name = None, diameter = NaN, hazardous = True,
        approaches = []\<rparr>]"
  let ?B' = "\<lparr>of_str = map_of [(''0.15'', Finite (3 / 20)), (''5.2'', Finite (26 / 5))],
         of_int = Map.empty\<rparr>"
  let ?cd = "\<lambda>v. if is_str v then Inr v else Inl TypeError"
  let ?row = "PList [PStr ''433'', PStr ''594'', PStr ''2415020.5'',
             PStr ''1900-Jan-01 12:00'', PStr ''0.15'', PStr ''0.14'', PStr ''0.16'',
             PStr ''5.2'', PStr ''5.1'']"
  let ?reader = "PDict [(''signature'', PDict []), (''count'', PStr ''1''),
          (''data'', PList [?row])]"
  let ?cas = "[\<lparr>ca_designation = PStr ''433'', time = PStr ''1900-Jan-01 12:00'',
        distance = PFloat (Finite (3 / 20)), velocity = PFloat (Finite (26 / 5)),
        neo = None\<rparr>]"
  have r0: "neo_of_row ?B (?rows ! 0) = Inr (?neos ! 0)"
    by (simp add: neo_of_row_def getitem_def NearEarthObject_init_def)
  have r1: "neo_of_row ?B (?rows ! 1) = Inr (?neos ! 1)"
    by (simp add: neo_of_row_def getitem_def NearEarthObject_init_def)
  have a0: "approach_of_row ?B' ?cd ?row = Inr (?cas ! 0)"
    by (simp add: approach_of_row_def CloseApproach_init_def)
  have d: "subscript ?reader ''data'' = Inr (PList [?row])"
    by (simp add: getitem_def)
  note c = C10_one_entity_per_record [of ?B ?rows ?neos ?reader "[?row]" ?B' ?cd ?cas]
  have "load_neos ?B ?rows = Inr ?neos"
    using c r0 r1 by (simp add: less_Suc_eq)
  moreover have "load_approaches ?B' ?cd ?reader = Inr ?cas"
    using c d a0 by simp
  ultimately show ?thesis
    by simp
qed

section \<open>The derived name and the constructor of a close approach\<close>

text \<open>
  Claim C8. \<open>fullname\<close> is the designation, a space and the name in parentheses when
  the name is present, and the designation alone when it is absent; the object constructed
  with designation \<open>433\<close> and name \<open>Eros\<close> has the full name \<open>433 (Eros)\<close>.
\<close>

theorem C8_fullname:
  "(\<forall>n. name self = Some n \<longrightarrow> fullname self = designation self @ '' ('' @ n @ '')'')
   \<and> (name self = None \<longrightarrow> fullname self = designation self)
   \<and> (\<forall>dia hz obj. NearEarthObject_init (PStr ''433'') (PStr ''Eros'') dia hz = Inr obj \<longrightarrow>
         fullname obj = ''433 (Eros)'')"
proof -
  have "fullname obj = ''433 (Eros)''"
    if "NearEarthObject_init (PStr ''433'') (PStr ''Eros'') dia hz = Inr obj" for dia hz obj
  proof -
    from NearEarthObject_init_Inr(1) [OF that] have "designation obj = ''433''"
      by simp
    moreover from NearEarthObject_init_Inr(2) [OF that] have "name obj = Some ''Eros''"
      by (cases "name obj") simp_all
    ultimately show ?thesis
      by (simp add: fullname_def)
  qed
  then show ?thesis
    by (simp add: fullname_def)
qed

theorem C8_fullname_witness:
  "fullname \<lparr>designation = ''433'', name = Some ''Eros'', diameter = Finite (421 / 25),
      hazardous = False, approaches = []\<rparr> = ''433 (Eros)''
   \<and> fullname \<lparr>designation = ''2020 AB'', name = None, diameter = NaN,
      hazardous = False, approaches = []\<rparr> = ''2020 AB''"
  using C8_fullname [of "\<lparr>designation = ''433'', name = Some ''Eros'',
      diameter = Finite (421 / 25), hazardous = False, approaches = []\<rparr>"]
    C8_fullname [of "\<lparr>designation = ''2020 AB'', name = None, diameter = NaN,
      hazardous = False, approaches = []\<rparr>"]
  by simp

text \<open>
  Claim C9. \<open>CloseApproach.__init__\<close> checks nothing about the distance, the velocity
  and the designation: whenever the time is parsed, the approach is constructed with the
  three arguments stored as they were passed and with \<open>neo\<close> absent; construction fails
  exactly when parsing the time fails, with that exception.
\<close>

theorem C9_init_stores_unchanged:
  "(\<forall>t. cd_to_datetime tm = Inr t \<longrightarrow>
      CloseApproach_init cd_to_datetime tm dst vel dsg =
        Inr \<lparr>ca_designation = dsg, time = t, distance = dst, velocity = vel, neo = None\<rparr>)
   \<and> (\<forall>e. (CloseApproach_init cd_to_datetime tm dst vel dsg = Inl e) =
            (cd_to_datetime tm = Inl e))"
  by (cases "cd_to_datetime tm") (simp_all add: CloseApproach_init_def)

theorem C9_init_stores_unchanged_witness:
  "CloseApproach_init (\<lambda>v. if is_str v then Inr v else Inl TypeError)
      (PStr ''1900-Jan-01 12:00'') (PStr ''far'') PNone (PInt 433) =
     Inr \<lparr>ca_designation = PInt 433, time = PStr ''1900-Jan-01 12:00'',
          distance = PStr ''far'', velocity = PNone, neo = None\<rparr>
   \<and> CloseApproach_init (\<lambda>v. if is_str v then Inr v else Inl TypeError)
      (PInt 1900) (PFloat (Finite (3 / 20))) (PFloat (Finite (26 / 5))) (PStr ''433'') =
     Inl TypeError"
  using C9_init_stores_unchanged [of "\<lambda>v. if is_str v then Inr v else Inl TypeError"
      "PStr ''1900-Jan-01 12:00''" "PStr ''far''" PNone "PInt 433"]
    C9_init_stores_unchanged [of "\<lambda>v. if is_str v then Inr v else Inl TypeError"
      "PInt 1900" "PFloat (Finite (3 / 20))" "PFloat (Finite (26 / 5))" "PStr ''433''"]
  by simp

end
